theory Spec2Isabelle
  imports Complex_Main "HOL-Library.Signed_Division"
begin

section \<open>The OpenSea trading bot (OpenSeaBot.js, config.js)\<close>

text \<open>
  The bot is a JavaScript class whose methods are asynchronous and talk to four outside
  parties: the OpenSea HTTP API (axios), the Seaport client, the chain (ethers provider,
  wallet and WETH contract) and the console. The embedding makes every such call an
  event of a trace. A method is a function from the trace so far to its outcome (a thrown
  error or a value) and the events it adds; the answer of an outside party is read from an
  environment record and may depend on everything that has happened before.

  JavaScript numbers are IEEE doubles. They are kept abstract as a type \<open>'n\<close>: the model
  uses only the comparison and the product of that type, exactly where the source does.
  ethers' BigNumber is an arbitrary-precision signed integer, modelled as \<open>int\<close>.
\<close>

subsection \<open>config.js\<close>

definition WETH_ADDRESS :: string where
  "WETH_ADDRESS = ''Example-0xC02aaA39b223FE8D0A0e5C4F27eAD9083C756Cc2''"

definition SEAPORT_ADDRESS :: string where
  "SEAPORT_ADDRESS = ''Example-0x00000000000001ad428e4906aE43D8F9852d0dD6''"

definition OPENSEA_API_URL :: string where
  "OPENSEA_API_URL = ''Example-https://api.opensea.io/api/v1''"

record 'n config =
  buyThreshold :: 'n
  offerPercentage :: 'n
  maxGasPrice :: 'n
  pollingInterval :: nat
  errorRetryDelay :: nat

definition DEFAULT_CONFIG :: "('n :: {numeral, inverse}) config" where
  "DEFAULT_CONFIG =
     \<lparr> buyThreshold = 1 / 10,
       offerPercentage = 8 / 10,
       maxGasPrice = 50,
       pollingInterval = 60000,
       errorRetryDelay = 30000 \<rparr>"

text \<open>The object a caller passes as \<open>config\<close>: any subset of the keys.\<close>

record 'n config_overrides =
  buyThreshold_opt :: "'n option"
  offerPercentage_opt :: "'n option"
  maxGasPrice_opt :: "'n option"
  pollingInterval_opt :: "nat option"
  errorRetryDelay_opt :: "nat option"

definition no_overrides :: "'n config_overrides" where
  "no_overrides =
     \<lparr> buyThreshold_opt = None, offerPercentage_opt = None, maxGasPrice_opt = None,
       pollingInterval_opt = None, errorRetryDelay_opt = None \<rparr>"

text \<open>\<open>{ ...DEFAULT_CONFIG, ...config }\<close>: a key of the second object wins.\<close>

definition spread_config :: "'n config \<Rightarrow> 'n config_overrides \<Rightarrow> 'n config" where
  "spread_config d c =
     \<lparr> buyThreshold = (case buyThreshold_opt c of None \<Rightarrow> buyThreshold d | Some v \<Rightarrow> v),
       offerPercentage = (case offerPercentage_opt c of None \<Rightarrow> offerPercentage d | Some v \<Rightarrow> v),
       maxGasPrice = (case maxGasPrice_opt c of None \<Rightarrow> maxGasPrice d | Some v \<Rightarrow> v),
       pollingInterval = (case pollingInterval_opt c of None \<Rightarrow> pollingInterval d | Some v \<Rightarrow> v),
       errorRetryDelay = (case errorRetryDelay_opt c of None \<Rightarrow> errorRetryDelay d | Some v \<Rightarrow> v) \<rparr>"

subsection \<open>Errors\<close>

text \<open>
  The five errors the class creates itself, the TypeError of reading a property of
  \<open>undefined\<close>, and whatever an outside party throws (kept as its message).
\<close>

datatype error =
    MissingConstructorParameters
  | NoValidOrderFound
  | InvalidOrder
  | GasPriceTooHigh int
  | TransactionFailed
  | TypeError
  | External string

subsection \<open>Data exchanged with the outside parties\<close>

record asset_contract =
  address :: string

record asset =
  token_id :: string
  asset_contract :: asset_contract

text \<open>An entry of \<open>asset_events\<close>; \<open>asset\<close> is \<open>None\<close> when the field is missing or null.\<close>

record listing =
  asset :: "asset option"
  ending_price :: string

record order =
  protocol_data :: string

record transaction =
  tx_payload :: string
  gasPrice :: "int option"
  gasLimit :: "int option"

record tx_response =
  hash :: string

record receipt =
  status :: int

text \<open>The body of the asset-contract answer; a missing field reads as \<open>undefined\<close>.\<close>

record contract_data =
  payout_address :: "string option"
  dev_seller_fee_basis_points :: "int option"

record royalty_info =
  recipient :: "string option"
  basisPoints :: "int option"

datatype item_type = ERC20 | ERC721

record offer_item =
  offer_itemType :: item_type
  offer_token :: string
  offer_amount :: int

record consideration_item =
  cons_itemType :: item_type
  cons_token :: string
  cons_identifier :: "string option"
  cons_amount :: "int option"
  cons_recipient :: "string option"

record create_order_input =
  offer :: "offer_item list"
  consideration :: "consideration_item list"
  endTime :: int

datatype param_value = PStr string | PNum nat

text \<open>An axios request: the URL, the query parameters and the \<open>X-API-KEY\<close> header.\<close>

record http_request =
  url :: string
  params :: "(string \<times> param_value) list"
  x_api_key :: "string option"

record 'n purchase_result =
  txHash :: string
  nftId :: string
  price :: 'n

record 'n offer_result =
  orderHash :: string
  offerAmount :: 'n
  expiration :: int

subsection \<open>Events\<close>

datatype 'n log_msg =
    MonitoringStarted string
  | FoundNft string 'n
  | BoughtNft string
  | OfferMade string string
  | MonitoringError error
  | FailedToFetchListings error
  | BuyNowError error
  | MakeOfferError error
  | ErrorFetchingOrder error
  | WrappedEth int
  | ApprovedWeth int

datatype 'n event =
    ConsoleLog "'n log_msg"
  | ConsoleError "'n log_msg"
  | Delay nat
  | AxiosGet http_request
  | AxiosPost http_request string
  | SeaportValidate string string
  | SeaportFulfillOrder string string
  | BuildTransaction string
  | GetGasPrice
  | SendTransaction transaction
  | WaitTx string
  | WethBalanceOf string
  | WethDeposit int
  | WethAllowance string string
  | WethApprove string int
  | SeaportCreateOrder create_order_input string
  | ExecuteAllActions

subsection \<open>The outside parties\<close>

text \<open>
  Every answer is either a thrown message (\<open>Inl\<close>) or a value. An answer that depends on
  the call is read at the trace that ends with the call's own event. The three
  conversions of ethers are functions of their argument; \<open>parseFloat_formatEther\<close> is
  \<open>parseFloat(ethers.utils.formatEther(x))\<close>. \<open>new_Wallet\<close> gives the address that
  ethers derives from a private key, or throws on a malformed key.
\<close>

record 'n env =
  axios_get_events :: "'n event list \<Rightarrow> string + listing list option"
  axios_get_listings :: "'n event list \<Rightarrow> string + order list option"
  axios_get_asset_contract :: "'n event list \<Rightarrow> string + contract_data"
  axios_post_offer :: "'n event list \<Rightarrow> string + string"
  parseFloat_formatEther :: "string \<Rightarrow> string + 'n"
  parseEther :: "'n \<Rightarrow> string + int"
  parseUnits_gwei :: "'n \<Rightarrow> string + int"
  new_Wallet :: "string \<Rightarrow> string + string"
  seaport_validate :: "'n event list \<Rightarrow> string + bool"
  seaport_fulfillOrder :: "'n event list \<Rightarrow> string + string list"
  buildTransaction :: "'n event list \<Rightarrow> string + transaction"
  getGasPrice :: "'n event list \<Rightarrow> string + int"
  sendTransaction :: "'n event list \<Rightarrow> string + tx_response"
  tx_wait :: "'n event list \<Rightarrow> string + receipt"
  weth_balanceOf :: "'n event list \<Rightarrow> string + int"
  weth_deposit :: "'n event list \<Rightarrow> string + tx_response"
  weth_allowance :: "'n event list \<Rightarrow> string + int"
  weth_approve :: "'n event list \<Rightarrow> string + tx_response"
  seaport_createOrder :: "'n event list \<Rightarrow> string + unit"
  executeAllActions :: "'n event list \<Rightarrow> string + string"
  date_now :: "'n event list \<Rightarrow> int"

subsection \<open>Asynchronous methods as trace transformers\<close>

type_synonym ('n, 'a) act = "'n event list \<Rightarrow> (error + 'a) \<times> 'n event list"

definition returnE :: "'a \<Rightarrow> ('n, 'a) act" where
  "returnE x h = (Inr x, [])"

definition throwE :: "error \<Rightarrow> ('n, 'a) act" where
  "throwE e h = (Inl e, [])"

text \<open>\<open>await m\<close> followed by the rest of the block: a throw of \<open>m\<close> skips the rest.\<close>

definition bindE :: "('n, 'a) act \<Rightarrow> ('a \<Rightarrow> ('n, 'b) act) \<Rightarrow> ('n, 'b) act" where
  "bindE m f h =
     (case m h of
        (Inl e, es) \<Rightarrow> (Inl e, es)
      | (Inr x, es) \<Rightarrow> (case f x (h @ es) of (r, es') \<Rightarrow> (r, es @ es')))"

text \<open>\<open>try { m } catch (error) { handler }\<close>.\<close>

definition catchE :: "('n, 'a) act \<Rightarrow> (error \<Rightarrow> ('n, 'a) act) \<Rightarrow> ('n, 'a) act" where
  "catchE m handler h =
     (case m h of
        (Inl e, es) \<Rightarrow> (case handler e (h @ es) of (r, es') \<Rightarrow> (r, es @ es'))
      | (Inr x, es) \<Rightarrow> (Inr x, es))"

text \<open>An effect with no answer (console output, the timer of \<open>delay\<close>).\<close>

definition emit :: "'n event \<Rightarrow> ('n, unit) act" where
  "emit ev h = (Inr (), [ev])"

text \<open>A call to an outside party: the event, then the party's answer.\<close>

definition perform :: "'n event \<Rightarrow> ('n event list \<Rightarrow> string + 'a) \<Rightarrow> ('n, 'a) act" where
  "perform ev answer h =
     ((case answer (h @ [ev]) of Inl msg \<Rightarrow> Inl (External msg) | Inr x \<Rightarrow> Inr x), [ev])"

text \<open>A conversion function of ethers, which throws or returns and leaves no event.\<close>

definition liftE :: "string + 'a \<Rightarrow> ('n, 'a) act" where
  "liftE r h = ((case r of Inl msg \<Rightarrow> Inl (External msg) | Inr x \<Rightarrow> Inr x), [])"

subsection \<open>The class\<close>

text \<open>
  The fields the constructor assigns, and \<open>openseaApiKey\<close>, which the methods read.
  A property that was never assigned reads as \<open>undefined\<close>, here \<open>None\<close>.
\<close>

record 'n bot =
  provider :: string
  wallet_key :: string
  wallet_address :: string
  bot_config :: "'n config"
  maxGasPriceWei :: int
  openseaApiKey :: "string option"

text \<open>\<open>!x\<close> for a string argument that may be absent.\<close>

definition falsy :: "string option \<Rightarrow> bool" where
  "falsy x = (case x of None \<Rightarrow> True | Some s \<Rightarrow> s = [])"

text \<open>
  The constructor. The parameter \<open>openseaApiKey\<close> is received and used nowhere in the
  body, so the property of that name is never assigned.
\<close>

definition OpenSeaBot_new ::
  "('n :: {numeral, inverse}) env \<Rightarrow> string option \<Rightarrow> string option \<Rightarrow> string option
     \<Rightarrow> 'n config_overrides \<Rightarrow> error + 'n bot" where
  "OpenSeaBot_new env privateKey infuraUrl openseaApiKey_arg cfg =
     (if falsy privateKey \<or> falsy infuraUrl then Inl MissingConstructorParameters
      else
        (case (privateKey, infuraUrl) of
           (Some key, Some rpc_url) \<Rightarrow>
             (case new_Wallet env key of
                Inl msg \<Rightarrow> Inl (External msg)
              | Inr addr \<Rightarrow>
                  let c = spread_config DEFAULT_CONFIG cfg in
                  (case parseUnits_gwei env (maxGasPrice c) of
                     Inl msg \<Rightarrow> Inl (External msg)
                   | Inr g \<Rightarrow>
                       Inr \<lparr> provider = rpc_url,
                             wallet_key = key,
                             wallet_address = addr,
                             bot_config = c,
                             maxGasPriceWei = g,
                             openseaApiKey = None \<rparr>))
         | _ \<Rightarrow> Inl MissingConstructorParameters))"

subsection \<open>Listing classification (monitorCollection, lines 54 to 66)\<close>

datatype 'n decision =
    Buy string string 'n
  | Offer string string 'n

definition classify :: "('n :: {ord, times}) config \<Rightarrow> asset \<Rightarrow> 'n \<Rightarrow> 'n decision" where
  "classify cfg a p =
     (if p < buyThreshold cfg
      then Buy (address (asset_contract a)) (token_id a) p
      else Offer (address (asset_contract a)) (token_id a) (p * offerPercentage cfg))"

subsection \<open>Helper methods\<close>

definition delay :: "nat \<Rightarrow> ('n, unit) act" where
  "delay ms = emit (Delay ms)"

definition events_request :: "'n bot \<Rightarrow> string \<Rightarrow> nat \<Rightarrow> http_request" where
  "events_request b collectionSlug limit =
     \<lparr> url = OPENSEA_API_URL @ ''/events'',
       params = [(''collection_slug'', PStr collectionSlug),
                 (''event_type'', PStr ''created''),
                 (''limit'', PNum limit)],
       x_api_key = openseaApiKey b \<rparr>"

definition listings_request :: "'n bot \<Rightarrow> string \<Rightarrow> string \<Rightarrow> http_request" where
  "listings_request b assetContract tokenId =
     \<lparr> url = OPENSEA_API_URL @ ''/asset/'' @ assetContract @ ''/'' @ tokenId @ ''/listings'',
       params = [],
       x_api_key = openseaApiKey b \<rparr>"

definition asset_contract_request :: "'n bot \<Rightarrow> string \<Rightarrow> http_request" where
  "asset_contract_request b contractAddress =
     \<lparr> url = OPENSEA_API_URL @ ''/asset_contract/'' @ contractAddress,
       params = [],
       x_api_key = openseaApiKey b \<rparr>"

definition post_offer_request :: "'n bot \<Rightarrow> http_request" where
  "post_offer_request b =
     \<lparr> url = OPENSEA_API_URL @ ''/v2/orders/ethereum/seaport/offers'',
       params = [],
       x_api_key = openseaApiKey b \<rparr>"

text \<open>
  fetchNewListings (lines 82 to 99). The answer of the events endpoint is the value of
  \<open>response.data.asset_events\<close>, \<open>None\<close> when it is missing. Its own \<open>catch\<close> turns every
  failure into the empty list.
\<close>

definition fetchNewListings ::
  "'n env \<Rightarrow> 'n bot \<Rightarrow> string \<Rightarrow> nat option \<Rightarrow> ('n, listing list) act" where
  "fetchNewListings env b collectionSlug limit_arg =
     (let limit = (case limit_arg of None \<Rightarrow> 10 | Some l \<Rightarrow> l) in
      catchE
        (bindE (perform (AxiosGet (events_request b collectionSlug limit)) (axios_get_events env))
           (\<lambda>asset_events. returnE (case asset_events of None \<Rightarrow> [] | Some ls \<Rightarrow> ls)))
        (\<lambda>error. bindE (emit (ConsoleError (FailedToFetchListings error)))
           (\<lambda>_. returnE [])))"

text \<open>fetchListingOrder (lines 221 to 231): \<open>response.data.orders?.[0]\<close>, or null.\<close>

definition fetchListingOrder ::
  "'n env \<Rightarrow> 'n bot \<Rightarrow> string \<Rightarrow> string \<Rightarrow> ('n, order option) act" where
  "fetchListingOrder env b assetContract tokenId =
     catchE
       (bindE (perform (AxiosGet (listings_request b assetContract tokenId))
                 (axios_get_listings env))
          (\<lambda>orders. returnE (case orders of
                                None \<Rightarrow> None
                              | Some [] \<Rightarrow> None
                              | Some (ord # _) \<Rightarrow> Some ord)))
       (\<lambda>error. bindE (emit (ConsoleError (ErrorFetchingOrder error)))
          (\<lambda>_. returnE None))"

text \<open>wrapEthIfNeeded (lines 233 to 247).\<close>

definition wrapEthIfNeeded :: "'n env \<Rightarrow> 'n bot \<Rightarrow> int \<Rightarrow> ('n, unit) act" where
  "wrapEthIfNeeded env b requiredWei =
     bindE (perform (WethBalanceOf (wallet_address b)) (weth_balanceOf env))
       (\<lambda>wethBalance.
          if wethBalance < requiredWei then
            (let ethToWrap = requiredWei - wethBalance in
             bindE (perform (WethDeposit ethToWrap) (weth_deposit env))
               (\<lambda>tx. bindE (perform (WaitTx (hash tx)) (tx_wait env))
                  (\<lambda>_. emit (ConsoleLog (WrappedEth ethToWrap)))))
          else returnE ())"

text \<open>approveWeth (lines 249 to 262).\<close>

definition approveWeth :: "'n env \<Rightarrow> 'n bot \<Rightarrow> int \<Rightarrow> ('n, unit) act" where
  "approveWeth env b amountWei =
     bindE (perform (WethAllowance (wallet_address b) SEAPORT_ADDRESS) (weth_allowance env))
       (\<lambda>currentAllowance.
          if currentAllowance < amountWei then
            bindE (perform (WethApprove SEAPORT_ADDRESS amountWei) (weth_approve env))
              (\<lambda>tx. bindE (perform (WaitTx (hash tx)) (tx_wait env))
                 (\<lambda>_. emit (ConsoleLog (ApprovedWeth amountWei))))
          else returnE ())"

text \<open>getRoyaltyInfo (lines 264 to 277): the answer's two fields, or null on any failure.\<close>

definition getRoyaltyInfo ::
  "'n env \<Rightarrow> 'n bot \<Rightarrow> string \<Rightarrow> ('n, royalty_info option) act" where
  "getRoyaltyInfo env b contractAddress =
     catchE
       (bindE (perform (AxiosGet (asset_contract_request b contractAddress))
                 (axios_get_asset_contract env))
          (\<lambda>d. returnE (Some \<lparr> recipient = payout_address d,
                                basisPoints = dev_seller_fee_basis_points d \<rparr>)))
       (\<lambda>error. returnE None)"

text \<open>postOfferToOpenSea (lines 279 to 286); the answer is \<open>response.data.order_hash\<close>.\<close>

definition postOfferToOpenSea :: "'n env \<Rightarrow> 'n bot \<Rightarrow> string \<Rightarrow> ('n, string) act" where
  "postOfferToOpenSea env b signed_order =
     perform (AxiosPost (post_offer_request b) signed_order) (axios_post_offer env)"

subsection \<open>buyNow (lines 107 to 151)\<close>

definition buyNow ::
  "'n env \<Rightarrow> 'n bot \<Rightarrow> string \<Rightarrow> string \<Rightarrow> 'n \<Rightarrow> ('n, 'n purchase_result) act" where
  "buyNow env b assetContract tokenId priceEth =
     catchE
       (bindE (fetchListingOrder env b assetContract tokenId)
          (\<lambda>order_opt.
             case order_opt of
               None \<Rightarrow> throwE NoValidOrderFound
             | Some ord \<Rightarrow>
          bindE (perform (SeaportValidate (protocol_data ord) (wallet_address b))
                   (seaport_validate env))
          (\<lambda>isValid.
             if \<not> isValid then throwE InvalidOrder else
          bindE (perform (SeaportFulfillOrder (protocol_data ord) (wallet_address b))
                   (seaport_fulfillOrder env))
          (\<lambda>actions.
             case actions of
               [] \<Rightarrow> throwE TypeError
             | action0 # _ \<Rightarrow>
          bindE (perform (BuildTransaction action0) (buildTransaction env))
          (\<lambda>transaction.
          bindE (perform GetGasPrice (getGasPrice env))
          (\<lambda>currentGasPrice.
             if currentGasPrice > maxGasPriceWei b
             then throwE (GasPriceTooHigh currentGasPrice) else
          bindE (perform
                   (SendTransaction
                      (transaction\<lparr>gasPrice := Some currentGasPrice, gasLimit := Some 300000\<rparr>))
                   (sendTransaction env))
          (\<lambda>txResponse.
          bindE (perform (WaitTx (hash txResponse)) (tx_wait env))
          (\<lambda>receipt.
             if status receipt = 0 then throwE TransactionFailed else
             returnE \<lparr> txHash = hash txResponse, nftId = tokenId, price = priceEth \<rparr>))))))))
       (\<lambda>error. bindE (emit (ConsoleError (BuyNowError error))) (\<lambda>_. throwE error))"

subsection \<open>makeOffer (lines 160 to 217)\<close>

text \<open>The fallback of line 171, used when getRoyaltyInfo gives null.\<close>

definition fallback_royalty :: royalty_info where
  "fallback_royalty =
     \<lparr> recipient = Some ''0x0000a26b00c1F0DF003000390027140000fAa719'',
       basisPoints = Some 1000 \<rparr>"

text \<open>
  \<open>offerAmountWei.mul(royaltyInfo.basisPoints).div(10000)\<close>. BigNumber throws on a value
  that is not an integer (\<open>None\<close>); its division truncates towards zero.
\<close>

definition royalty_amount :: "int \<Rightarrow> int option \<Rightarrow> string + int" where
  "royalty_amount offerAmountWei bps =
     (case bps of
        None \<Rightarrow> Inl ''invalid BigNumber value''
      | Some k \<Rightarrow> Inr ((offerAmountWei * k) sdiv 10000))"

text \<open>The first argument of \<open>seaport.createOrder\<close> (lines 178 to 200).\<close>

definition offer_terms ::
  "string \<Rightarrow> string \<Rightarrow> string \<Rightarrow> int \<Rightarrow> royalty_info \<Rightarrow> int \<Rightarrow> int \<Rightarrow> create_order_input" where
  "offer_terms walletAddress assetContract tokenId offerAmountWei royaltyInfo royaltyWei end_time =
     \<lparr> offer =
         [\<lparr> offer_itemType = ERC20, offer_token = WETH_ADDRESS, offer_amount = offerAmountWei \<rparr>],
       consideration =
         [\<lparr> cons_itemType = ERC721, cons_token = assetContract,
            cons_identifier = Some tokenId, cons_amount = None,
            cons_recipient = Some walletAddress \<rparr>,
          \<lparr> cons_itemType = ERC20, cons_token = WETH_ADDRESS,
            cons_identifier = None, cons_amount = Some royaltyWei,
            cons_recipient = recipient royaltyInfo \<rparr>],
       endTime = end_time \<rparr>"

text \<open>\<open>Date.now()\<close>: the clock is read, in milliseconds, and nothing else happens.\<close>

definition Date_now :: "'n env \<Rightarrow> ('n, int) act" where
  "Date_now env h = (Inr (date_now env h), [])"

definition makeOffer ::
  "'n env \<Rightarrow> 'n bot \<Rightarrow> string \<Rightarrow> string \<Rightarrow> 'n \<Rightarrow> int option \<Rightarrow> ('n, 'n offer_result) act" where
  "makeOffer env b assetContract tokenId offerAmountEth expirationDays_arg =
     (let expirationDays = (case expirationDays_arg of None \<Rightarrow> 7 | Some d \<Rightarrow> d) in
      catchE
        (bindE (liftE (parseEther env offerAmountEth))
           (\<lambda>offerAmountWei.
         bindE (wrapEthIfNeeded env b offerAmountWei)
           (\<lambda>_.
         bindE (approveWeth env b offerAmountWei)
           (\<lambda>_.
         bindE (getRoyaltyInfo env b assetContract)
           (\<lambda>looked_up.
              let royaltyInfo = (case looked_up of None \<Rightarrow> fallback_royalty | Some r \<Rightarrow> r) in
         bindE (Date_now env)
           (\<lambda>now.
              let end_time = now div 1000 + expirationDays * 86400 in
         bindE (liftE (royalty_amount offerAmountWei (basisPoints royaltyInfo)))
           (\<lambda>royaltyWei.
         bindE (perform
                  (SeaportCreateOrder
                     (offer_terms (wallet_address b) assetContract tokenId offerAmountWei
                        royaltyInfo royaltyWei end_time)
                     (wallet_address b))
                  (seaport_createOrder env))
           (\<lambda>_.
         bindE (perform ExecuteAllActions (executeAllActions env))
           (\<lambda>signed_order.
         bindE (postOfferToOpenSea env b signed_order)
           (\<lambda>order_hash.
              returnE \<lparr> orderHash = order_hash, offerAmount = offerAmountEth,
                        expiration = end_time * 1000 \<rparr>))))))))))
        (\<lambda>error. bindE (emit (ConsoleError (MakeOfferError error))) (\<lambda>_. throwE error)))"

subsection \<open>monitorCollection (lines 37 to 75)\<close>

text \<open>The body of the \<open>for\<close> loop for one listing (lines 45 to 66).\<close>

definition dispatch_listing ::
  "('n :: {ord, times}) env \<Rightarrow> 'n bot \<Rightarrow> listing \<Rightarrow> ('n, unit) act" where
  "dispatch_listing env b l =
     (case asset l of
        None \<Rightarrow> returnE ()
      | Some a \<Rightarrow>
          bindE (liftE (parseFloat_formatEther env (ending_price l)))
            (\<lambda>p.
          bindE (emit (ConsoleLog (FoundNft (token_id a) p)))
            (\<lambda>_.
               case classify (bot_config b) a p of
                 Buy contract tokenId pr \<Rightarrow>
                   bindE (buyNow env b contract tokenId pr)
                     (\<lambda>result.
                        if txHash result \<noteq> [] then emit (ConsoleLog (BoughtNft (txHash result)))
                        else returnE ())
               | Offer contract tokenId offerPrice \<Rightarrow>
                   bindE (makeOffer env b contract tokenId offerPrice None)
                     (\<lambda>result.
                        if orderHash result \<noteq> []
                        then emit (ConsoleLog (OfferMade contract tokenId))
                        else returnE ()))))"

text \<open>The \<open>for\<close> loop over the batch (lines 44 to 67): a throw leaves the loop.\<close>

fun for_listings ::
  "('n :: {ord, times}) env \<Rightarrow> 'n bot \<Rightarrow> listing list \<Rightarrow> ('n, unit) act" where
  "for_listings env b [] = returnE ()"
| "for_listings env b (l # ls) =
     bindE (dispatch_listing env b l) (\<lambda>_. for_listings env b ls)"

text \<open>One turn of \<open>while (true)\<close> (lines 41 to 73): the \<open>try\<close> block and its \<open>catch\<close>.\<close>

definition monitor_cycle ::
  "('n :: {ord, times}) env \<Rightarrow> 'n bot \<Rightarrow> string \<Rightarrow> ('n, unit) act" where
  "monitor_cycle env b collectionSlug =
     catchE
       (bindE (fetchNewListings env b collectionSlug None)
          (\<lambda>listings.
        bindE (for_listings env b listings)
          (\<lambda>_. delay (pollingInterval (bot_config b)))))
       (\<lambda>error. bindE (emit (ConsoleError (MonitoringError error)))
          (\<lambda>_. delay (errorRetryDelay (bot_config b))))"

text \<open>
  The loop has no exit, so monitorCollection never returns. \<open>monitor_turns k\<close> is its
  first \<open>k\<close> turns, and \<open>monitorCollection k\<close> the trace the method has produced when the
  \<open>k\<close>-th turn ends.
\<close>

fun monitor_turns ::
  "nat \<Rightarrow> ('n :: {ord, times}) env \<Rightarrow> 'n bot \<Rightarrow> string \<Rightarrow> ('n, unit) act" where
  "monitor_turns 0 env b collectionSlug = returnE ()"
| "monitor_turns (Suc k) env b collectionSlug =
     bindE (monitor_cycle env b collectionSlug) (\<lambda>_. monitor_turns k env b collectionSlug)"

definition monitorCollection ::
  "nat \<Rightarrow> ('n :: {ord, times}) env \<Rightarrow> 'n bot \<Rightarrow> string \<Rightarrow> ('n, unit) act" where
  "monitorCollection k env b collectionSlug =
     bindE (emit (ConsoleLog (MonitoringStarted collectionSlug)))
       (\<lambda>_. monitor_turns k env b collectionSlug)"

subsection \<open>Observations on traces\<close>

text \<open>The values of the \<open>deposit\<close> calls in a trace, in order.\<close>

fun deposit_of :: "'n event \<Rightarrow> int list" where
  "deposit_of (WethDeposit v) = [v]"
| "deposit_of _ = []"

definition deposits :: "'n event list \<Rightarrow> int list" where
  "deposits es = concat (map deposit_of es)"

text \<open>The spender and amount of the \<open>approve\<close> calls in a trace, in order.\<close>

fun approval_of :: "'n event \<Rightarrow> (string \<times> int) list" where
  "approval_of (WethApprove spender v) = [(spender, v)]"
| "approval_of _ = []"

definition approvals :: "'n event list \<Rightarrow> (string \<times> int) list" where
  "approvals es = concat (map approval_of es)"

text \<open>The steps of buyNow that come after the order lookup.\<close>

fun past_order_lookup :: "'n event \<Rightarrow> bool" where
  "past_order_lookup (SeaportValidate _ _) = True"
| "past_order_lookup (SeaportFulfillOrder _ _) = True"
| "past_order_lookup (BuildTransaction _) = True"
| "past_order_lookup GetGasPrice = True"
| "past_order_lookup (SendTransaction _) = True"
| "past_order_lookup (WaitTx _) = True"
| "past_order_lookup _ = False"

text \<open>An HTTP request in a trace carries \<open>k\<close> as its \<open>X-API-KEY\<close> header.\<close>

fun key_is :: "string option \<Rightarrow> 'n event \<Rightarrow> bool" where
  "key_is k (AxiosGet r) = (x_api_key r = k)"
| "key_is k (AxiosPost r _) = (x_api_key r = k)"
| "key_is k _ = True"

text \<open>Whatever has happened before, every event that a method adds satisfies \<open>P\<close>.\<close>

definition emits_only :: "('n event \<Rightarrow> bool) \<Rightarrow> ('n, 'a) act \<Rightarrow> bool" where
  "emits_only P m = (\<forall>h. list_all P (snd (m h)))"

text \<open>
  The listings endpoint gives no order: the request fails, the answer has no \<open>orders\<close>,
  or \<open>orders\<close> is empty.
\<close>

definition no_order :: "string + order list option \<Rightarrow> bool" where
  "no_order answer =
     (case answer of Inl _ \<Rightarrow> True | Inr None \<Rightarrow> True | Inr (Some os) \<Rightarrow> os = [])"

subsection \<open>Concrete instances\<close>

text \<open>
  Numbers are rationals here. \<open>env0\<close> answers every call successfully, except the
  royalty lookup, which fails; the wallet holds no WETH and has granted no allowance.
\<close>

definition bot0 :: "rat bot" where
  "bot0 =
     \<lparr> provider = ''https://rpc'', wallet_key = ''key'', wallet_address = ''0xW'',
       bot_config = DEFAULT_CONFIG, maxGasPriceWei = 50000000000, openseaApiKey = None \<rparr>"

definition env0 :: "rat env" where
  "env0 =
     \<lparr> axios_get_events = (\<lambda>h. Inr (Some [])),
       axios_get_listings = (\<lambda>h. Inr (Some [\<lparr> protocol_data = ''order'' \<rparr>])),
       axios_get_asset_contract = (\<lambda>h. Inl ''Request failed with status code 404''),
       axios_post_offer = (\<lambda>h. Inr ''0xhash''),
       parseFloat_formatEther = (\<lambda>s. Inr (1 / 20)),
       parseEther = (\<lambda>x. Inr \<lfloor>x * 10 ^ 18\<rfloor>),
       parseUnits_gwei = (\<lambda>x. Inr \<lfloor>x * 10 ^ 9\<rfloor>),
       new_Wallet = (\<lambda>k. Inr ''0xW''),
       seaport_validate = (\<lambda>h. Inr True),
       seaport_fulfillOrder = (\<lambda>h. Inr [''fulfill'']),
       buildTransaction =
         (\<lambda>h. Inr \<lparr> tx_payload = ''calldata'', gasPrice = None, gasLimit = None \<rparr>),
       getGasPrice = (\<lambda>h. Inr 20000000000),
       sendTransaction = (\<lambda>h. Inr \<lparr> hash = ''0xabc'' \<rparr>),
       tx_wait = (\<lambda>h. Inr \<lparr> status = 1 \<rparr>),
       weth_balanceOf = (\<lambda>h. Inr 0),
       weth_deposit = (\<lambda>h. Inr \<lparr> hash = ''0xdep'' \<rparr>),
       weth_allowance = (\<lambda>h. Inr 0),
       weth_approve = (\<lambda>h. Inr \<lparr> hash = ''0xapp'' \<rparr>),
       seaport_createOrder = (\<lambda>h. Inr ()),
       executeAllActions = (\<lambda>h. Inr ''signed''),
       date_now = (\<lambda>h. 1700000000123) \<rparr>"

text \<open>A listing of token \<open>t\<close>, priced below the default threshold by \<open>env0\<close>.\<close>

definition listing_n :: "string \<Rightarrow> listing" where
  "listing_n t =
     \<lparr> asset = Some \<lparr> token_id = t, asset_contract = \<lparr> address = ''0xC'' \<rparr> \<rparr>,
       ending_price = ''50000000000000000'' \<rparr>"

text \<open>A batch of three listings; the listings endpoint has no order for the second.\<close>

definition env_batch :: "rat env" where
  "env_batch = env0
     \<lparr> axios_get_events :=
         (\<lambda>h. Inr (Some [listing_n ''1'', listing_n ''2'', listing_n ''3''])),
       axios_get_listings :=
         (\<lambda>h. if last h = AxiosGet (listings_request bot0 ''0xC'' ''2'')
               then Inr (Some [])
               else Inr (Some [\<lparr> protocol_data = ''order'' \<rparr>])) \<rparr>"

text \<open>The events endpoint is unreachable.\<close>

definition env_down :: "rat env" where
  "env_down = env0 \<lparr> axios_get_events := (\<lambda>h. Inl ''Network Error'') \<rparr>"

text \<open>The gas price the provider reports is \<open>g\<close>.\<close>

definition env_gas :: "int \<Rightarrow> rat env" where
  "env_gas g = env0 \<lparr> getGasPrice := (\<lambda>h. Inr g) \<rparr>"

text \<open>The wallet holds \<open>bal\<close> WETH and has granted Seaport an allowance of \<open>allowed\<close>.\<close>

definition env_funds :: "int \<Rightarrow> int \<Rightarrow> rat env" where
  "env_funds bal allowed =
     env0 \<lparr> weth_balanceOf := (\<lambda>h. Inr bal), weth_allowance := (\<lambda>h. Inr allowed) \<rparr>"

text \<open>What buying token \<open>t\<close> of the batch adds to the trace when every step succeeds.\<close>

definition bought_trace :: "string \<Rightarrow> rat event list" where
  "bought_trace t =
     [ConsoleLog (FoundNft t (1 / 20)),
      AxiosGet (listings_request bot0 ''0xC'' t),
      SeaportValidate ''order'' ''0xW'',
      SeaportFulfillOrder ''order'' ''0xW'',
      BuildTransaction ''fulfill'',
      GetGasPrice,
      SendTransaction
        \<lparr> tx_payload = ''calldata'', gasPrice = Some 20000000000, gasLimit = Some 300000 \<rparr>,
      WaitTx ''0xabc'',
      ConsoleLog (BoughtNft ''0xabc'')]"

text \<open>What the listing without an order adds: buyNow logs its error and throws it on.\<close>

definition no_order_trace :: "string \<Rightarrow> rat event list" where
  "no_order_trace t =
     [ConsoleLog (FoundNft t (1 / 20)),
      AxiosGet (listings_request bot0 ''0xC'' t),
      ConsoleError (BuyNowError NoValidOrderFound)]"

text \<open>
  A WETH contract that starts with \<open>bal0\<close> for the wallet and credits every deposit: the
  balance it reports is \<open>bal0\<close> plus the deposits made so far.
\<close>

definition env_weth :: "int \<Rightarrow> rat env" where
  "env_weth bal0 = env0 \<lparr> weth_balanceOf := (\<lambda>h. Inr (bal0 + sum_list (deposits h))) \<rparr>"

text \<open>
  The royalty lookup answers with the payee \<open>0xR\<close> and the rate \<open>k\<close>; the wallet holds
  1000000 base units of WETH and has granted as much.
\<close>

definition env_royalty :: "int \<Rightarrow> rat env" where
  "env_royalty k = env0
     \<lparr> axios_get_asset_contract :=
         (\<lambda>h. Inr \<lparr> payout_address = Some ''0xR'', dev_seller_fee_basis_points = Some k \<rparr>),
       weth_balanceOf := (\<lambda>h. Inr 1000000),
       weth_allowance := (\<lambda>h. Inr 1000000) \<rparr>"

subsection \<open>The steps of buyNow up to the gas check\<close>

definition steps_before_submission ::
  "'n bot \<Rightarrow> string \<Rightarrow> string \<Rightarrow> order \<Rightarrow> string \<Rightarrow> 'n event list" where
  "steps_before_submission b assetContract tokenId ord action0 =
     [AxiosGet (listings_request b assetContract tokenId),
      SeaportValidate (protocol_data ord) (wallet_address b),
      SeaportFulfillOrder (protocol_data ord) (wallet_address b),
      BuildTransaction action0,
      GetGasPrice]"

section \<open>Properties\<close>

lemmas act_defs =
  returnE_def throwE_def bindE_def catchE_def emit_def perform_def liftE_def delay_def
  Date_now_def

lemma bindE_liftE_Inr: "bindE (liftE (Inr x)) f = f x"
  by (simp add: bindE_def liftE_def fun_eq_iff split: prod.splits)

subsection \<open>Classification\<close>



text \<open>
  The loop body acts on that decision: after the log line it calls buyNow with the
  listing's contract, token and price, or makeOffer with the computed amount.
\<close>

lemma dispatch_listing_routes:
  fixes p :: "'n :: {linorder, times}"
  assumes "asset l = Some a" and "parseFloat_formatEther env (ending_price l) = Inr p"
  shows "dispatch_listing env b l =
           bindE (emit (ConsoleLog (FoundNft (token_id a) p)))
             (\<lambda>_. if p < buyThreshold (bot_config b)
                   then bindE (buyNow env b (address (asset_contract a)) (token_id a) p)
                          (\<lambda>result. if txHash result \<noteq> []
                                     then emit (ConsoleLog (BoughtNft (txHash result)))
                                     else returnE ())
                   else bindE (makeOffer env b (address (asset_contract a)) (token_id a)
                                 (p * offerPercentage (bot_config b)) None)
                          (\<lambda>result. if orderHash result \<noteq> []
                                     then emit (ConsoleLog
                                            (OfferMade (address (asset_contract a)) (token_id a)))
                                     else returnE ()))"
  using assms by (simp add: dispatch_listing_def bindE_liftE_Inr classify_def)


subsection \<open>An executor that throws\<close>

text \<open>A throw in the body for one listing leaves the \<open>for\<close> loop: the listings behind it
  are not looked at.\<close>

lemma for_listings_stops:
  "for_listings env b pre h = (Inr (), es1) \<Longrightarrow>
   dispatch_listing env b l (h @ es1) = (Inl e, es2) \<Longrightarrow>
   for_listings env b (pre @ l # post) h = (Inl e, es1 @ es2)"
proof (induction pre arbitrary: h es1)
  case Nil
  then show ?case by (simp add: returnE_def bindE_def)
next
  case (Cons x pre)
  from Cons.prems(1) obtain esx es1' where
    x: "dispatch_listing env b x h = (Inr (), esx)" and
    r: "for_listings env b pre (h @ esx) = (Inr (), es1')" and
    e: "es1 = esx @ es1'"
    by (auto simp: bindE_def split: prod.splits sum.splits)
  from Cons.prems(2) e have "dispatch_listing env b l ((h @ esx) @ es1') = (Inl e, es2)"
    by simp
  from Cons.IH [OF r this] x e show ?case
    by (simp add: bindE_def)
qed

text \<open>What buyNow or makeOffer throws, the body of the loop throws.\<close>

lemma executor_throw_is_body_throw:
  fixes p :: "'n :: {linorder, times}"
  assumes "asset l = Some a" and "parseFloat_formatEther env (ending_price l) = Inr p"
    and "found = ConsoleLog (FoundNft (token_id a) p)"
  shows "p < buyThreshold (bot_config b) \<Longrightarrow>
           buyNow env b (address (asset_contract a)) (token_id a) p (h @ [found]) = (Inl e, es) \<Longrightarrow>
           dispatch_listing env b l h = (Inl e, found # es)"
    and "buyThreshold (bot_config b) \<le> p \<Longrightarrow>
           makeOffer env b (address (asset_contract a)) (token_id a)
             (p * offerPercentage (bot_config b)) None (h @ [found]) = (Inl e, es) \<Longrightarrow>
           dispatch_listing env b l h = (Inl e, found # es)"
  using assms by (auto simp: dispatch_listing_routes bindE_def emit_def)

text \<open>
  C2, as the code has it. The \<open>try\<close> encloses the whole turn of the loop, not the single
  listing. When the listings \<open>pre\<close> of a batch are handled and the next listing's executor
  throws \<open>e\<close>, the turn ends there: the error is logged by the handler of the turn, the
  listings \<open>post\<close> behind it are not dispatched, the loop sleeps \<open>errorRetryDelay\<close> and
  the turn returns normally, so the loop goes on with its next fetch.
\<close>

theorem executor_failure_ends_batch:
  assumes "fetchNewListings env b slug None h = (Inr (pre @ l # post), es0)"
    and "for_listings env b pre (h @ es0) = (Inr (), es1)"
    and "dispatch_listing env b l (h @ es0 @ es1) = (Inl e, es2)"
  shows "monitor_cycle env b slug h =
           (Inr (), es0 @ es1 @ es2 @
              [ConsoleError (MonitoringError e), Delay (errorRetryDelay (bot_config b))])"
proof -
  from assms(3) have "dispatch_listing env b l ((h @ es0) @ es1) = (Inl e, es2)" by simp
  from for_listings_stops [OF assms(2) this]
  have "for_listings env b (pre @ l # post) (h @ es0) = (Inl e, es1 @ es2)" .
  with assms(1) show ?thesis
    by (simp add: monitor_cycle_def catchE_def bindE_def emit_def delay_def)
qed

lemmas batch_defs =
  fetchNewListings_def act_defs env_batch_def env0_def bot0_def listing_n_def
  dispatch_listing_def classify_def DEFAULT_CONFIG_def buyNow_def fetchListingOrder_def
  events_request_def listings_request_def OPENSEA_API_URL_def bought_trace_def
  no_order_trace_def

theorem executor_failure_ends_batch_witness:
  "monitor_cycle env_batch bot0 ''cool-cats-nft'' [] =
     (Inr (),
      [AxiosGet (events_request bot0 ''cool-cats-nft'' 10)] @ bought_trace ''1'' @
      no_order_trace ''2'' @
      [ConsoleError (MonitoringError NoValidOrderFound),
       Delay (errorRetryDelay (bot_config bot0))])"
proof -
  have f: "fetchNewListings env_batch bot0 ''cool-cats-nft'' None [] =
             (Inr ([listing_n ''1''] @ listing_n ''2'' # [listing_n ''3'']),
              [AxiosGet (events_request bot0 ''cool-cats-nft'' 10)])"
    by (simp add: batch_defs)
  have p: "for_listings env_batch bot0 [listing_n ''1'']
             ([] @ [AxiosGet (events_request bot0 ''cool-cats-nft'' 10)]) =
             (Inr (), bought_trace ''1'')"
    by (simp add: batch_defs)
  have d: "dispatch_listing env_batch bot0 (listing_n ''2'')
             ([] @ [AxiosGet (events_request bot0 ''cool-cats-nft'' 10)] @ bought_trace ''1'') =
             (Inl NoValidOrderFound, no_order_trace ''2'')"
    by (simp add: batch_defs)
  from executor_failure_ends_batch [OF f p d] show ?thesis .
qed

text \<open>
  C2, as the specification states it, fails. The batch has three listings, all below the
  threshold; the second has no order, so its buyNow throws. The first listing is bought,
  the second fails, and the turn ends: the lookup that buyNow starts with never happens
  for the third listing.
\<close>

theorem batch_aborted_counterexample:
  "snd (monitor_cycle env_batch bot0 ''cool-cats-nft'' []) =
     [AxiosGet (events_request bot0 ''cool-cats-nft'' 10)] @ bought_trace ''1'' @
     no_order_trace ''2'' @
     [ConsoleError (MonitoringError NoValidOrderFound), Delay 30000] \<and>
   asset (listing_n ''3'') = Some \<lparr>token_id = ''3'', asset_contract = \<lparr>address = ''0xC''\<rparr>\<rparr> \<and>
   classify (bot_config bot0) \<lparr>token_id = ''3'', asset_contract = \<lparr>address = ''0xC''\<rparr>\<rparr> (1 / 20)
     = Buy ''0xC'' ''3'' (1 / 20) \<and>
   AxiosGet (listings_request bot0 ''0xC'' ''3'')
     \<notin> set (snd (monitor_cycle env_batch bot0 ''cool-cats-nft'' []))"
  by (simp add: monitor_cycle_def batch_defs)

subsection \<open>A fetch that fails\<close>

lemma monitor_cycle_starts_with_fetch:
  "\<exists>rest. monitor_cycle env b slug h = (Inr (), AxiosGet (events_request b slug 10) # rest)"
  by (simp add: monitor_cycle_def fetchNewListings_def act_defs split: prod.splits sum.splits)

text \<open>No turn of the loop throws, and so no number of turns does.\<close>

lemma monitor_cycle_returns: "fst (monitor_cycle env b slug h) = Inr ()"
  using monitor_cycle_starts_with_fetch [of env b slug h] by auto

lemma monitor_turns_returns: "fst (monitor_turns k env b slug h) = Inr ()"
proof (induction k arbitrary: h)
  case 0
  show ?case by (simp add: returnE_def)
next
  case (Suc k)
  obtain es where c: "monitor_cycle env b slug h = (Inr (), es)"
    using monitor_cycle_returns [of env b slug h] by (cases "monitor_cycle env b slug h") auto
  with Suc [of "h @ es"] show ?case
    by (cases "monitor_turns k env b slug (h @ es)") (simp add: bindE_def)
qed

lemma monitor_turns_starts_with_fetch:
  "\<exists>rest. monitor_turns (Suc k) env b slug h =
     (Inr (), AxiosGet (events_request b slug 10) # rest)"
proof -
  obtain rest where
    "monitor_cycle env b slug h = (Inr (), AxiosGet (events_request b slug 10) # rest)"
    using monitor_cycle_starts_with_fetch by blast
  moreover obtain es where
    "monitor_turns k env b slug (h @ AxiosGet (events_request b slug 10) # rest) = (Inr (), es)"
    using monitor_turns_returns
      [of k env b slug "h @ AxiosGet (events_request b slug 10) # rest"]
    by (cases "monitor_turns k env b slug (h @ AxiosGet (events_request b slug 10) # rest)")
      auto
  ultimately show ?thesis
    by (simp add: bindE_def)
qed

text \<open>
  C3, as the code has it. fetchNewListings catches the failure itself, logs it and
  returns the empty batch, so the turn of the loop ends normally: nothing is thrown, the
  sleep is one \<open>pollingInterval\<close>, and the next turn starts with the same request. However
  many turns follow, the loop has thrown nothing.
\<close>

theorem fetch_failure_retry:
  assumes "axios_get_events env (h @ [AxiosGet (events_request b slug 10)]) = Inl msg"
  shows "monitor_cycle env b slug h =
           (Inr (), [AxiosGet (events_request b slug 10),
                     ConsoleError (FailedToFetchListings (External msg)),
                     Delay (pollingInterval (bot_config b))]) \<and>
         (\<exists>rest. monitor_turns (Suc (Suc k)) env b slug h =
           (Inr (), [AxiosGet (events_request b slug 10),
                     ConsoleError (FailedToFetchListings (External msg)),
                     Delay (pollingInterval (bot_config b)),
                     AxiosGet (events_request b slug 10)] @ rest))"
proof -
  let ?es = "[AxiosGet (events_request b slug 10),
              ConsoleError (FailedToFetchListings (External msg)),
              Delay (pollingInterval (bot_config b))]"
  have c: "monitor_cycle env b slug h = (Inr (), ?es)"
    using assms by (simp add: monitor_cycle_def fetchNewListings_def act_defs)
  obtain rest where
    n: "monitor_turns (Suc k) env b slug (h @ ?es) =
          (Inr (), AxiosGet (events_request b slug 10) # rest)"
    using monitor_turns_starts_with_fetch by blast
  have "monitor_turns (Suc (Suc k)) env b slug h =
          (Inr (), ?es @ AxiosGet (events_request b slug 10) # rest)"
    using c n by (simp add: bindE_def del: monitor_turns.simps(2)) (simp add: bindE_def c)
  with c show ?thesis by simp
qed

theorem fetch_failure_retry_witness:
  "axios_get_events env_down ([] @ [AxiosGet (events_request bot0 ''cool-cats-nft'' 10)])
     = Inl ''Network Error'' \<and>
   monitor_cycle env_down bot0 ''cool-cats-nft'' [] =
     (Inr (), [AxiosGet (events_request bot0 ''cool-cats-nft'' 10),
               ConsoleError (FailedToFetchListings (External ''Network Error'')),
               Delay (pollingInterval (bot_config bot0))]) \<and>
   (\<exists>rest. monitor_turns (Suc (Suc 0)) env_down bot0 ''cool-cats-nft'' [] =
      (Inr (), [AxiosGet (events_request bot0 ''cool-cats-nft'' 10),
                ConsoleError (FailedToFetchListings (External ''Network Error'')),
                Delay (pollingInterval (bot_config bot0)),
                AxiosGet (events_request bot0 ''cool-cats-nft'' 10)] @ rest))"
proof -
  have a: "axios_get_events env_down ([] @ [AxiosGet (events_request bot0 ''cool-cats-nft'' 10)])
             = Inl ''Network Error''"
    by (simp add: env_down_def env0_def)
  from a fetch_failure_retry [OF a, of 0] show ?thesis by blast
qed

text \<open>
  C3, as the specification states it, fails: with the default configuration the sleep
  after a failed fetch lasts 60000 ms, the polling interval, and no sleep of
  \<open>errorRetryDelay\<close> (30000 ms) occurs in that turn.
\<close>

theorem fetch_failure_counterexample:
  "snd (monitor_cycle env_down bot0 ''cool-cats-nft'' []) =
     [AxiosGet (events_request bot0 ''cool-cats-nft'' 10),
      ConsoleError (FailedToFetchListings (External ''Network Error'')),
      Delay 60000] \<and>
   errorRetryDelay (bot_config bot0) = 30000 \<and>
   Delay (errorRetryDelay (bot_config bot0))
     \<notin> set (snd (monitor_cycle env_down bot0 ''cool-cats-nft'' []))"
  by (simp add: monitor_cycle_def fetchNewListings_def act_defs env_down_def env0_def bot0_def
      DEFAULT_CONFIG_def)

subsection \<open>The gas guard of buyNow\<close>

text \<open>
  C4. Let buyNow reach the gas check: the order is found and valid, the fulfilment gives
  a transaction \<open>tx\<close>, and the provider reports the gas price \<open>g\<close>. If \<open>g\<close> is strictly
  above the ceiling, buyNow throws the gas error and its trace ends with the log of that
  error, so nothing is submitted. If \<open>g\<close> is at most the ceiling (equality included), the
  next event is the submission of \<open>tx\<close> with gas price \<open>g\<close> and gas limit 300000, and
  whatever buyNow then returns is not the gas error.
\<close>

theorem gas_guard_strict:
  assumes "pre = steps_before_submission b c t ord action0"
    and "axios_get_listings env (h @ take 1 pre) = Inr (Some (ord # more_orders))"
    and "seaport_validate env (h @ take 2 pre) = Inr True"
    and "seaport_fulfillOrder env (h @ take 3 pre) = Inr (action0 # more_actions)"
    and "buildTransaction env (h @ take 4 pre) = Inr tx"
    and "getGasPrice env (h @ pre) = Inr g"
  shows "(maxGasPriceWei b < g \<longrightarrow>
            buyNow env b c t p h =
              (Inl (GasPriceTooHigh g),
               pre @ [ConsoleError (BuyNowError (GasPriceTooHigh g))])) \<and>
         (g \<le> maxGasPriceWei b \<longrightarrow>
            (\<exists>r rest.
               buyNow env b c t p h =
                 (r, pre @
                     SendTransaction (tx\<lparr>gasPrice := Some g, gasLimit := Some 300000\<rparr>) # rest) \<and>
               (\<forall>g'. r \<noteq> Inl (GasPriceTooHigh g'))))"
  using assms
  by (auto simp: steps_before_submission_def buyNow_def fetchListingOrder_def act_defs
      split: sum.splits prod.splits)

theorem gas_guard_strict_witness:
  "maxGasPriceWei bot0 < 50000000001 \<and>
   buyNow (env_gas 50000000001) bot0 ''0xC'' ''7'' (1 / 20) [] =
     (Inl (GasPriceTooHigh 50000000001),
      steps_before_submission bot0 ''0xC'' ''7'' \<lparr>protocol_data = ''order''\<rparr> ''fulfill'' @
      [ConsoleError (BuyNowError (GasPriceTooHigh 50000000001))]) \<and>
   50000000000 \<le> maxGasPriceWei bot0 \<and>
   (\<exists>r rest.
      buyNow (env_gas 50000000000) bot0 ''0xC'' ''7'' (1 / 20) [] =
        (r, steps_before_submission bot0 ''0xC'' ''7'' \<lparr>protocol_data = ''order''\<rparr> ''fulfill'' @
            SendTransaction
              \<lparr>tx_payload = ''calldata'', gasPrice = Some 50000000000, gasLimit = Some 300000\<rparr>
            # rest) \<and>
      (\<forall>g'. r \<noteq> Inl (GasPriceTooHigh g')))"
proof -
  let ?pre = "steps_before_submission bot0 ''0xC'' ''7'' \<lparr>protocol_data = ''order''\<rparr> ''fulfill''"
  let ?tx = "\<lparr>tx_payload = ''calldata'', gasPrice = None, gasLimit = None\<rparr>"
  have hi: "maxGasPriceWei bot0 < 50000000001" and lo: "50000000000 \<le> maxGasPriceWei bot0"
    by (simp_all add: bot0_def)
  have a: "axios_get_listings (env_gas g) ([] @ take 1 ?pre) = Inr (Some (\<lparr>protocol_data = ''order''\<rparr> # []))"
    and v: "seaport_validate (env_gas g) ([] @ take 2 ?pre) = Inr True"
    and f: "seaport_fulfillOrder (env_gas g) ([] @ take 3 ?pre) = Inr (''fulfill'' # [])"
    and t: "buildTransaction (env_gas g) ([] @ take 4 ?pre) = Inr ?tx"
    and g: "getGasPrice (env_gas g) ([] @ ?pre) = Inr g" for g
    by (simp_all add: env_gas_def env0_def)
  from gas_guard_strict [OF refl a v f t g, of 50000000001 "1 / 20"]
    gas_guard_strict [OF refl a v f t g, of 50000000000 "1 / 20"] hi lo
  show ?thesis by simp
qed

subsection \<open>buyNow without an order\<close>

text \<open>
  C5. When the listings endpoint gives no order for the token (the request fails, or it
  answers without orders), buyNow throws the no-order error, and its trace holds the
  lookup and the error logs only: none of its events is a validation, a fulfilment, a gas
  query, a transaction submission or a wait.
\<close>

theorem buyNow_no_order:
  assumes "no_order (axios_get_listings env (h @ [AxiosGet (listings_request b c t)]))"
  shows "fst (buyNow env b c t p h) = Inl NoValidOrderFound \<and>
         filter past_order_lookup (snd (buyNow env b c t p h)) = [] \<and>
         snd (buyNow env b c t p h) =
           AxiosGet (listings_request b c t) #
           (case axios_get_listings env (h @ [AxiosGet (listings_request b c t)]) of
              Inl msg \<Rightarrow> [ConsoleError (ErrorFetchingOrder (External msg))]
            | Inr _ \<Rightarrow> []) @
           [ConsoleError (BuyNowError NoValidOrderFound)]"
  using assms
  by (auto simp: no_order_def buyNow_def fetchListingOrder_def act_defs
      split: sum.splits option.splits list.splits)

theorem buyNow_no_order_witness:
  "no_order (axios_get_listings env_batch ([] @ [AxiosGet (listings_request bot0 ''0xC'' ''2'')])) \<and>
   fst (buyNow env_batch bot0 ''0xC'' ''2'' (1 / 20) []) = Inl NoValidOrderFound \<and>
   filter past_order_lookup (snd (buyNow env_batch bot0 ''0xC'' ''2'' (1 / 20) [])) = [] \<and>
   snd (buyNow env_batch bot0 ''0xC'' ''2'' (1 / 20) []) =
     [AxiosGet (listings_request bot0 ''0xC'' ''2''),
      ConsoleError (BuyNowError NoValidOrderFound)]"
proof -
  have a: "axios_get_listings env_batch ([] @ [AxiosGet (listings_request bot0 ''0xC'' ''2'')])
             = Inr (Some [])"
    by (simp add: env_batch_def env0_def)
  then have n: "no_order (axios_get_listings env_batch
                            ([] @ [AxiosGet (listings_request bot0 ''0xC'' ''2'')]))"
    by (simp add: no_order_def)
  from buyNow_no_order [OF n, of "1 / 20"] n a show ?thesis by simp
qed

subsection \<open>The royalty leg\<close>

lemma sdiv_nonneg: "0 \<le> a \<Longrightarrow> 0 < b \<Longrightarrow> (a::int) sdiv b = a div b"
  by (simp add: signed_divide_int_def sgn_if)

lemma below_next_multiple: "(m::int) < (m div 10000 + 1) * 10000"
  by presburger

text \<open>The division of BigNumber on amounts and rates that are not negative.\<close>

lemma royalty_amount_truncates:
  "royalty_amount w (Some k) = Inr ((w * k) sdiv 10000)"
  by (simp add: royalty_amount_def)

lemma sdiv_10000_floor:
  assumes "0 \<le> w" and "0 \<le> k"
  shows "(w * k) sdiv 10000 = \<lfloor>real_of_int w * real_of_int k / 10000\<rfloor>"
    and "(w * k) sdiv 10000 * 10000 \<le> w * k"
    and "w * k < ((w * k) sdiv 10000 + 1) * 10000"
proof -
  from assms have nn: "0 \<le> w * k" by simp
  then have d: "(w * k) sdiv 10000 = (w * k) div 10000"
    by (simp add: sdiv_nonneg)
  have "\<lfloor>real_of_int w * real_of_int k / 10000\<rfloor> =
        \<lfloor>real_of_int (w * k) / real_of_int 10000\<rfloor>"
    by simp
  also have "\<dots> = (w * k) div 10000"
    by (rule floor_divide_of_int_eq)
  finally show "(w * k) sdiv 10000 = \<lfloor>real_of_int w * real_of_int k / 10000\<rfloor>"
    using d by simp
  show "(w * k) sdiv 10000 * 10000 \<le> w * k"
    unfolding d by simp
  show "w * k < ((w * k) sdiv 10000 + 1) * 10000"
    unfolding d by (rule below_next_multiple)
qed

text \<open>
  C6. Let makeOffer reach the royalty lookup with the offer amount \<open>w\<close> in base units (the
  amount converts, wrapping and approval succeed), and let the royalty info it then holds,
  the looked-up payee and rate or the fallback when the request fails, have the rate \<open>k\<close>
  in basis points. Then the order that makeOffer hands to \<open>createOrder\<close> offers \<open>w\<close> WETH
  and has two consideration items, the token for the bot's own address and a WETH leg for
  the payee whose amount is \<open>w * k\<close> divided by 10000 with truncation. For \<open>w\<close> and \<open>k\<close>
  that are not negative that leg is the floor of \<open>w * k / 10000\<close>: the leg times 10000
  does not exceed the product, and the next integer does.
\<close>

theorem makeOffer_royalty_leg:
  assumes "parseEther env amt = Inr w"
    and "wrapEthIfNeeded env b w h = (Inr (), es1)"
    and "approveWeth env b w (h @ es1) = (Inr (), es2)"
    and "h3 = h @ es1 @ es2 @ [AxiosGet (asset_contract_request b c)]"
    and "royaltyInfo =
           (case axios_get_asset_contract env h3 of
              Inl msg \<Rightarrow>
                \<lparr> recipient = Some ''0x0000a26b00c1F0DF003000390027140000fAa719'',
                  basisPoints = Some 1000 \<rparr>
            | Inr d \<Rightarrow>
                \<lparr> recipient = payout_address d,
                  basisPoints = dev_seller_fee_basis_points d \<rparr>)"
    and "basisPoints royaltyInfo = Some k"
    and "end_time = date_now env h3 div 1000 + (case days of None \<Rightarrow> 7 | Some d \<Rightarrow> d) * 86400"
  shows "\<exists>r rest leg.
           makeOffer env b c t amt days h =
             (r, es1 @ es2 @
                 [AxiosGet (asset_contract_request b c),
                  SeaportCreateOrder
                    \<lparr> offer =
                        [\<lparr> offer_itemType = ERC20, offer_token = WETH_ADDRESS,
                           offer_amount = w \<rparr>],
                      consideration =
                        [\<lparr> cons_itemType = ERC721, cons_token = c,
                           cons_identifier = Some t, cons_amount = None,
                           cons_recipient = Some (wallet_address b) \<rparr>,
                         \<lparr> cons_itemType = ERC20, cons_token = WETH_ADDRESS,
                           cons_identifier = None, cons_amount = Some leg,
                           cons_recipient = recipient royaltyInfo \<rparr>],
                      endTime = end_time \<rparr>
                    (wallet_address b)] @ rest) \<and>
           leg = (w * k) sdiv 10000 \<and>
           (0 \<le> w \<and> 0 \<le> k \<longrightarrow>
              leg = \<lfloor>real_of_int w * real_of_int k / 10000\<rfloor> \<and>
              leg * 10000 \<le> w * k \<and> w * k < (leg + 1) * 10000)"
proof -
  have fl: "0 \<le> w \<and> 0 \<le> k \<longrightarrow>
              (w * k) sdiv 10000 = \<lfloor>real_of_int w * real_of_int k / 10000\<rfloor> \<and>
              (w * k) sdiv 10000 * 10000 \<le> w * k \<and>
              w * k < ((w * k) sdiv 10000 + 1) * 10000"
    using sdiv_10000_floor [of w k] by blast
  have "\<exists>r rest.
           makeOffer env b c t amt days h =
             (r, es1 @ es2 @
                 [AxiosGet (asset_contract_request b c),
                  SeaportCreateOrder
                    \<lparr> offer =
                        [\<lparr> offer_itemType = ERC20, offer_token = WETH_ADDRESS,
                           offer_amount = w \<rparr>],
                      consideration =
                        [\<lparr> cons_itemType = ERC721, cons_token = c,
                           cons_identifier = Some t, cons_amount = None,
                           cons_recipient = Some (wallet_address b) \<rparr>,
                         \<lparr> cons_itemType = ERC20, cons_token = WETH_ADDRESS,
                           cons_identifier = None, cons_amount = Some ((w * k) sdiv 10000),
                           cons_recipient = recipient royaltyInfo \<rparr>],
                      endTime = end_time \<rparr>
                    (wallet_address b)] @ rest)"
  proof (cases "axios_get_asset_contract env h3")
    case (Inl msg)
    with assms(5,6) have pk:
      "recipient royaltyInfo = Some ''0x0000a26b00c1F0DF003000390027140000fAa719''"
      "k = 1000"
      by simp_all
    from Inl assms(4) have g: "getRoyaltyInfo env b c (h @ es1 @ es2) =
             (Inr None, [AxiosGet (asset_contract_request b c)])"
      by (simp add: getRoyaltyInfo_def act_defs)
    show ?thesis
      using assms(1-4,7) g pk
      by (simp add: makeOffer_def act_defs postOfferToOpenSea_def fallback_royalty_def
          royalty_amount_def offer_terms_def Let_def split: sum.splits prod.splits)
  next
    case (Inr d)
    with assms(5,6) have pk:
      "payout_address d = recipient royaltyInfo" "dev_seller_fee_basis_points d = Some k"
      by simp_all
    from Inr assms(4) have g: "getRoyaltyInfo env b c (h @ es1 @ es2) =
             (Inr (Some \<lparr> recipient = payout_address d,
                            basisPoints = dev_seller_fee_basis_points d \<rparr>),
              [AxiosGet (asset_contract_request b c)])"
      by (simp add: getRoyaltyInfo_def act_defs)
    show ?thesis
      using assms(1-4,7) g pk
      by (simp add: makeOffer_def act_defs postOfferToOpenSea_def
          royalty_amount_def offer_terms_def Let_def split: sum.splits prod.splits)
  qed
  with fl show ?thesis by blast
qed

text \<open>At 1000 basis points and an offer of 1000000 base units the leg is 100000.\<close>

theorem makeOffer_royalty_leg_witness:
  "(0::int) \<le> 1000000 \<and> (0::int) \<le> 1000 \<and>
   \<lfloor>real_of_int 1000000 * real_of_int 1000 / 10000\<rfloor> = (100000::int) \<and>
   (\<exists>r rest.
      makeOffer (env_royalty 1000) bot0 ''0xC'' ''7'' (1 / 1000000000000) None [] =
        (r, [WethBalanceOf ''0xW''] @ [WethAllowance ''0xW'' SEAPORT_ADDRESS] @
            [AxiosGet (asset_contract_request bot0 ''0xC''),
             SeaportCreateOrder
               \<lparr> offer =
                   [\<lparr> offer_itemType = ERC20, offer_token = WETH_ADDRESS,
                      offer_amount = 1000000 \<rparr>],
                 consideration =
                   [\<lparr> cons_itemType = ERC721, cons_token = ''0xC'',
                      cons_identifier = Some ''7'', cons_amount = None,
                      cons_recipient = Some ''0xW'' \<rparr>,
                    \<lparr> cons_itemType = ERC20, cons_token = WETH_ADDRESS,
                      cons_identifier = None, cons_amount = Some 100000,
                      cons_recipient = Some ''0xR'' \<rparr>],
                 endTime = 1700604800 \<rparr>
               ''0xW''] @ rest))"
proof -
  let ?es1 = "[WethBalanceOf ''0xW''] :: rat event list"
  let ?es2 = "[WethAllowance ''0xW'' SEAPORT_ADDRESS] :: rat event list"
  let ?h3 = "[] @ ?es1 @ ?es2 @ [AxiosGet (asset_contract_request bot0 ''0xC'')]"
  let ?ri = "\<lparr> recipient = Some ''0xR'', basisPoints = Some (1000::int) \<rparr>"
  have p: "parseEther (env_royalty 1000) (1 / 1000000000000) = Inr 1000000"
    by (simp add: env_royalty_def env0_def)
  have wr: "wrapEthIfNeeded (env_royalty 1000) bot0 1000000 [] = (Inr (), ?es1)"
    by (simp add: wrapEthIfNeeded_def act_defs env_royalty_def env0_def bot0_def)
  have ap: "approveWeth (env_royalty 1000) bot0 1000000 ([] @ ?es1) = (Inr (), ?es2)"
    by (simp add: approveWeth_def act_defs env_royalty_def env0_def bot0_def)
  have ri: "?ri =
        (case axios_get_asset_contract (env_royalty 1000) ?h3 of
           Inl msg \<Rightarrow>
             \<lparr> recipient = Some ''0x0000a26b00c1F0DF003000390027140000fAa719'',
               basisPoints = Some 1000 \<rparr>
         | Inr d \<Rightarrow>
             \<lparr> recipient = payout_address d,
               basisPoints = dev_seller_fee_basis_points d \<rparr>)"
    by (simp add: env_royalty_def env0_def)
  have bp: "basisPoints ?ri = Some 1000"
    by simp
  have et: "(1700604800::int) =
              date_now (env_royalty 1000) ?h3 div 1000
              + (case None of None \<Rightarrow> 7 | Some d \<Rightarrow> d) * 86400"
    by (simp add: env_royalty_def env0_def)
  have s: "((1000000::int) * 1000) sdiv 10000 = 100000"
    by (simp add: signed_divide_int_def)
  from makeOffer_royalty_leg [OF p wr ap refl ri bp et, of "''7''"] s
  show ?thesis by (auto simp: bot0_def)
qed

subsection \<open>Wrapping and approving\<close>

lemma wrap_at_most_one: "length (deposits (snd (wrapEthIfNeeded env b req h))) \<le> 1"
  by (simp add: wrapEthIfNeeded_def act_defs deposits_def Let_def split: sum.splits prod.splits)

text \<open>
  C7. Let the balance that wrapEthIfNeeded reads be \<open>bal\<close>. It calls \<open>deposit\<close> only when
  \<open>bal\<close> is strictly below the required amount, once, with exactly the deficit; with a
  sufficient balance the read is its only effect. So when a second call follows and reads
  a sufficient balance, the two calls together deposit at most once.
\<close>

theorem wrap_only_deficit:
  assumes "weth_balanceOf env (h @ [WethBalanceOf (wallet_address b)]) = Inr bal"
  shows "deposits (snd (wrapEthIfNeeded env b req h)) = (if bal < req then [req - bal] else []) \<and>
         (req \<le> bal \<longrightarrow>
            wrapEthIfNeeded env b req h = (Inr (), [WethBalanceOf (wallet_address b)])) \<and>
         (\<forall>bal2. weth_balanceOf env
                   (h @ snd (wrapEthIfNeeded env b req h) @ [WethBalanceOf (wallet_address b)])
                   = Inr bal2 \<and> req \<le> bal2 \<longrightarrow>
            length (deposits (snd (wrapEthIfNeeded env b req h) @
                       snd (wrapEthIfNeeded env b req (h @ snd (wrapEthIfNeeded env b req h)))))
              \<le> 1)"
proof (intro conjI allI impI)
  show "deposits (snd (wrapEthIfNeeded env b req h)) = (if bal < req then [req - bal] else [])"
    using assms
    by (simp add: wrapEthIfNeeded_def act_defs deposits_def Let_def split: sum.splits prod.splits)
  show "wrapEthIfNeeded env b req h = (Inr (), [WethBalanceOf (wallet_address b)])"
    if "req \<le> bal"
    using assms that by (simp add: wrapEthIfNeeded_def act_defs)
next
  fix bal2
  define es1 where "es1 = snd (wrapEthIfNeeded env b req h)"
  assume "weth_balanceOf env
            (h @ snd (wrapEthIfNeeded env b req h) @ [WethBalanceOf (wallet_address b)])
            = Inr bal2 \<and> req \<le> bal2"
  then have a: "weth_balanceOf env (h @ es1 @ [WethBalanceOf (wallet_address b)]) = Inr bal2"
    and le: "req \<le> bal2"
    by (simp_all add: es1_def)
  have "wrapEthIfNeeded env b req (h @ es1) = (Inr (), [WethBalanceOf (wallet_address b)])"
    using a le by (simp add: wrapEthIfNeeded_def act_defs)
  then have "deposits (es1 @ snd (wrapEthIfNeeded env b req (h @ es1))) = deposits es1"
    by (simp add: deposits_def)
  then show "length (deposits (snd (wrapEthIfNeeded env b req h) @
                snd (wrapEthIfNeeded env b req (h @ snd (wrapEthIfNeeded env b req h))))) \<le> 1"
    using wrap_at_most_one [of env b req h] by (simp add: es1_def)
qed

theorem wrap_only_deficit_witness:
  "weth_balanceOf (env_funds 30 0) ([] @ [WethBalanceOf (wallet_address bot0)]) = Inr 30 \<and>
   deposits (snd (wrapEthIfNeeded (env_funds 30 0) bot0 100 [])) = [70] \<and>
   weth_balanceOf (env_funds 100 0) ([] @ [WethBalanceOf (wallet_address bot0)]) = Inr 100 \<and>
   deposits (snd (wrapEthIfNeeded (env_funds 100 0) bot0 100 [])) = [] \<and>
   wrapEthIfNeeded (env_funds 100 0) bot0 100 [] =
     (Inr (), [WethBalanceOf (wallet_address bot0)]) \<and>
   weth_balanceOf (env_weth 30)
     ([] @ snd (wrapEthIfNeeded (env_weth 30) bot0 100 []) @
      [WethBalanceOf (wallet_address bot0)]) = Inr 100 \<and>
   length (deposits (snd (wrapEthIfNeeded (env_weth 30) bot0 100 []) @
             snd (wrapEthIfNeeded (env_weth 30) bot0 100
                    ([] @ snd (wrapEthIfNeeded (env_weth 30) bot0 100 []))))) \<le> 1"
proof -
  have a: "weth_balanceOf (env_funds bal 0) ([] @ [WethBalanceOf (wallet_address bot0)]) = Inr bal"
    for bal
    by (simp add: env_funds_def env0_def)
  have b: "weth_balanceOf (env_weth 30) ([] @ [WethBalanceOf (wallet_address bot0)]) = Inr 30"
    by (simp add: env_weth_def env0_def deposits_def)
  have first: "snd (wrapEthIfNeeded (env_weth 30) bot0 100 []) =
          [WethBalanceOf (wallet_address bot0), WethDeposit 70, WaitTx ''0xdep'',
           ConsoleLog (WrappedEth 70)]"
    by (simp add: wrapEthIfNeeded_def act_defs env_weth_def env0_def deposits_def)
  have second: "weth_balanceOf (env_weth 30)
          ([] @ snd (wrapEthIfNeeded (env_weth 30) bot0 100 []) @
           [WethBalanceOf (wallet_address bot0)]) = Inr 100"
    unfolding first by (simp add: env_weth_def env0_def deposits_def)
  from wrap_only_deficit [OF b, of 100] second
  have "length (deposits (snd (wrapEthIfNeeded (env_weth 30) bot0 100 []) @
             snd (wrapEthIfNeeded (env_weth 30) bot0 100
                    ([] @ snd (wrapEthIfNeeded (env_weth 30) bot0 100 []))))) \<le> 1"
    by blast
  with wrap_only_deficit [OF a, of 30 100] wrap_only_deficit [OF a, of 100 100] a second
  show ?thesis by (simp add: deposits_def)
qed

text \<open>
  C8. Let the allowance that approveWeth reads be \<open>allowed\<close>. With \<open>allowed\<close> at or above
  the required amount the read is its only effect: no approval is submitted. With
  \<open>allowed\<close> strictly below it, exactly one approval is submitted, to the Seaport
  address, for exactly the required amount.
\<close>

theorem approve_only_when_short:
  assumes "weth_allowance env (h @ [WethAllowance (wallet_address b) SEAPORT_ADDRESS])
             = Inr allowed"
  shows "approvals (snd (approveWeth env b amt h)) =
           (if allowed < amt then [(SEAPORT_ADDRESS, amt)] else []) \<and>
         (amt \<le> allowed \<longrightarrow>
            approveWeth env b amt h =
              (Inr (), [WethAllowance (wallet_address b) SEAPORT_ADDRESS]))"
  using assms
  by (simp add: approveWeth_def act_defs approvals_def split: sum.splits prod.splits)

theorem approve_only_when_short_witness:
  "weth_allowance (env_funds 0 30) ([] @ [WethAllowance (wallet_address bot0) SEAPORT_ADDRESS])
     = Inr 30 \<and>
   approvals (snd (approveWeth (env_funds 0 30) bot0 100 [])) = [(SEAPORT_ADDRESS, 100)] \<and>
   weth_allowance (env_funds 0 100) ([] @ [WethAllowance (wallet_address bot0) SEAPORT_ADDRESS])
     = Inr 100 \<and>
   approvals (snd (approveWeth (env_funds 0 100) bot0 100 [])) = [] \<and>
   approveWeth (env_funds 0 100) bot0 100 [] =
     (Inr (), [WethAllowance (wallet_address bot0) SEAPORT_ADDRESS])"
proof -
  have a: "weth_allowance (env_funds 0 allowed)
             ([] @ [WethAllowance (wallet_address bot0) SEAPORT_ADDRESS]) = Inr allowed"
    for allowed
    by (simp add: env_funds_def env0_def)
  from approve_only_when_short [OF a, of 30 100] approve_only_when_short [OF a, of 100 100] a
  show ?thesis by (simp add: approvals_def)
qed

subsection \<open>The royalty lookup\<close>

text \<open>
  C9. Let makeOffer reach the royalty lookup (the amount converts, wrapping and approval
  succeed) and let the lookup's request fail. Then getRoyaltyInfo returns null instead of
  throwing, and the next step of makeOffer is the construction of the order with the
  fallback recipient and a royalty leg of 1000 basis points. When the Seaport client and
  the offers endpoint then answer, makeOffer returns the offer result: the failed lookup
  reaches the caller in no form. The last part spells the order out, with the fallback
  recipient's address.
\<close>

theorem royalty_failure_absorbed:
  assumes "parseEther env amt = Inr w"
    and "wrapEthIfNeeded env b w h = (Inr (), es1)"
    and "approveWeth env b w (h @ es1) = (Inr (), es2)"
    and "h3 = h @ es1 @ es2 @ [AxiosGet (asset_contract_request b c)]"
    and "axios_get_asset_contract env h3 = Inl msg"
    and "end_time = date_now env h3 div 1000 + (case days of None \<Rightarrow> 7 | Some d \<Rightarrow> d) * 86400"
    and "create = SeaportCreateOrder
           (offer_terms (wallet_address b) c t w fallback_royalty ((w * 1000) sdiv 10000) end_time)
           (wallet_address b)"
  shows "getRoyaltyInfo env b c (h @ es1 @ es2) =
           (Inr None, [AxiosGet (asset_contract_request b c)]) \<and>
         (\<exists>r rest. makeOffer env b c t amt days h =
            (r, es1 @ es2 @ [AxiosGet (asset_contract_request b c), create] @ rest)) \<and>
         (\<forall>signed order_hash.
            seaport_createOrder env (h3 @ [create]) = Inr () \<and>
            executeAllActions env (h3 @ [create, ExecuteAllActions]) = Inr signed \<and>
            axios_post_offer env
              (h3 @ [create, ExecuteAllActions, AxiosPost (post_offer_request b) signed])
              = Inr order_hash \<longrightarrow>
            makeOffer env b c t amt days h =
              (Inr \<lparr> orderHash = order_hash, offerAmount = amt, expiration = end_time * 1000 \<rparr>,
               es1 @ es2 @ [AxiosGet (asset_contract_request b c), create, ExecuteAllActions,
                            AxiosPost (post_offer_request b) signed])) \<and>
         create =
           SeaportCreateOrder
             \<lparr> offer =
                 [\<lparr> offer_itemType = ERC20, offer_token = WETH_ADDRESS, offer_amount = w \<rparr>],
               consideration =
                 [\<lparr> cons_itemType = ERC721, cons_token = c,
                    cons_identifier = Some t, cons_amount = None,
                    cons_recipient = Some (wallet_address b) \<rparr>,
                  \<lparr> cons_itemType = ERC20, cons_token = WETH_ADDRESS,
                    cons_identifier = None, cons_amount = Some ((w * 1000) sdiv 10000),
                    cons_recipient = Some ''0x0000a26b00c1F0DF003000390027140000fAa719'' \<rparr>],
               endTime = end_time \<rparr>
             (wallet_address b)"
proof (intro conjI allI impI)
  show g: "getRoyaltyInfo env b c (h @ es1 @ es2) =
             (Inr None, [AxiosGet (asset_contract_request b c)])"
    using assms(4,5) by (simp add: getRoyaltyInfo_def act_defs)
  show "\<exists>r rest. makeOffer env b c t amt days h =
            (r, es1 @ es2 @ [AxiosGet (asset_contract_request b c), create] @ rest)"
    using assms g
    by (simp add: makeOffer_def act_defs postOfferToOpenSea_def fallback_royalty_def
        royalty_amount_def Let_def split: sum.splits prod.splits)
next
  fix signed order_hash
  assume "seaport_createOrder env (h3 @ [create]) = Inr () \<and>
            executeAllActions env (h3 @ [create, ExecuteAllActions]) = Inr signed \<and>
            axios_post_offer env
              (h3 @ [create, ExecuteAllActions, AxiosPost (post_offer_request b) signed])
              = Inr order_hash"
  moreover have "getRoyaltyInfo env b c (h @ es1 @ es2) =
                   (Inr None, [AxiosGet (asset_contract_request b c)])"
    using assms(4,5) by (simp add: getRoyaltyInfo_def act_defs)
  ultimately show "makeOffer env b c t amt days h =
              (Inr \<lparr> orderHash = order_hash, offerAmount = amt, expiration = end_time * 1000 \<rparr>,
               es1 @ es2 @ [AxiosGet (asset_contract_request b c), create, ExecuteAllActions,
                            AxiosPost (post_offer_request b) signed])"
    using assms
    by (simp add: makeOffer_def act_defs postOfferToOpenSea_def fallback_royalty_def
        royalty_amount_def Let_def)
next
  show "create =
           SeaportCreateOrder
             \<lparr> offer =
                 [\<lparr> offer_itemType = ERC20, offer_token = WETH_ADDRESS, offer_amount = w \<rparr>],
               consideration =
                 [\<lparr> cons_itemType = ERC721, cons_token = c,
                    cons_identifier = Some t, cons_amount = None,
                    cons_recipient = Some (wallet_address b) \<rparr>,
                  \<lparr> cons_itemType = ERC20, cons_token = WETH_ADDRESS,
                    cons_identifier = None, cons_amount = Some ((w * 1000) sdiv 10000),
                    cons_recipient = Some ''0x0000a26b00c1F0DF003000390027140000fAa719'' \<rparr>],
               endTime = end_time \<rparr>
             (wallet_address b)"
    using assms(7) by (simp add: offer_terms_def fallback_royalty_def)
qed

theorem royalty_failure_absorbed_witness:
  "makeOffer env0 bot0 ''0xC'' ''7'' (4 / 25) None [] =
     (Inr \<lparr> orderHash = ''0xhash'', offerAmount = 4 / 25, expiration = 1700604800 * 1000 \<rparr>,
      [WethBalanceOf ''0xW'', WethDeposit 160000000000000000, WaitTx ''0xdep'',
       ConsoleLog (WrappedEth 160000000000000000)] @
      [WethAllowance ''0xW'' SEAPORT_ADDRESS, WethApprove SEAPORT_ADDRESS 160000000000000000,
       WaitTx ''0xapp'', ConsoleLog (ApprovedWeth 160000000000000000)] @
      [AxiosGet (asset_contract_request bot0 ''0xC''),
       SeaportCreateOrder
         (offer_terms (wallet_address bot0) ''0xC'' ''7'' 160000000000000000 fallback_royalty
            ((160000000000000000 * 1000) sdiv 10000) 1700604800)
         (wallet_address bot0),
       ExecuteAllActions,
       AxiosPost (post_offer_request bot0) ''signed''])"
proof -
  let ?w = "160000000000000000 :: int"
  let ?es1 = "[WethBalanceOf ''0xW'', WethDeposit ?w, WaitTx ''0xdep'',
               ConsoleLog (WrappedEth ?w)] :: rat event list"
  let ?es2 = "[WethAllowance ''0xW'' SEAPORT_ADDRESS, WethApprove SEAPORT_ADDRESS ?w,
               WaitTx ''0xapp'', ConsoleLog (ApprovedWeth ?w)] :: rat event list"
  let ?h3 = "[] @ ?es1 @ ?es2 @ [AxiosGet (asset_contract_request bot0 ''0xC'')]"
  let ?create = "SeaportCreateOrder
         (offer_terms (wallet_address bot0) ''0xC'' ''7'' ?w fallback_royalty
            ((?w * 1000) sdiv 10000) 1700604800)
         (wallet_address bot0) :: rat event"
  have p: "parseEther env0 (4 / 25) = Inr ?w"
    by (simp add: env0_def)
  have wr: "wrapEthIfNeeded env0 bot0 ?w [] = (Inr (), ?es1)"
    by (simp add: wrapEthIfNeeded_def act_defs env0_def bot0_def)
  have ap: "approveWeth env0 bot0 ?w ([] @ ?es1) = (Inr (), ?es2)"
    by (simp add: approveWeth_def act_defs env0_def bot0_def)
  have lk: "axios_get_asset_contract env0 ?h3 = Inl ''Request failed with status code 404''"
    by (simp add: env0_def)
  have et: "(1700604800::int) =
              date_now env0 ?h3 div 1000 + (case None of None \<Rightarrow> 7 | Some d \<Rightarrow> d) * 86400"
    by (simp add: env0_def)
  have rest: "seaport_createOrder env0 (?h3 @ [?create]) = Inr () \<and>
        executeAllActions env0 (?h3 @ [?create, ExecuteAllActions]) = Inr ''signed'' \<and>
        axios_post_offer env0
          (?h3 @ [?create, ExecuteAllActions, AxiosPost (post_offer_request bot0) ''signed''])
          = Inr ''0xhash''"
    by (simp add: env0_def)
  from royalty_failure_absorbed [OF p wr ap refl lk et refl, of "''7''"] rest
  show ?thesis by blast
qed

subsection \<open>The API key\<close>

text \<open>
  The header of every request that a method sends is the instance's \<open>openseaApiKey\<close>.
  The proof follows the structure of the methods.
\<close>

lemma emits_only_returnE: "emits_only P (returnE x)"
  and emits_only_throwE: "emits_only P (throwE e)"
  and emits_only_liftE: "emits_only P (liftE r)"
  by (simp_all add: emits_only_def act_defs)

lemma emits_only_emit: "P ev \<Longrightarrow> emits_only P (emit ev)"
  and emits_only_delay: "P (Delay ms) \<Longrightarrow> emits_only P (delay ms)"
  and emits_only_perform: "P ev \<Longrightarrow> emits_only P (perform ev answer)"
  by (simp_all add: emits_only_def act_defs)

lemma emits_only_bindE:
  "emits_only P m \<Longrightarrow> (\<And>x. emits_only P (f x)) \<Longrightarrow> emits_only P (bindE m f)"
proof -
  assume m: "emits_only P m" and f: "\<And>x. emits_only P (f x)"
  show ?thesis
    unfolding emits_only_def
  proof
    fix h
    obtain r es where mh: "m h = (r, es)" by (cases "m h")
    from m have pm: "list_all P es" using mh by (auto simp: emits_only_def dest: spec [of _ h])
    show "list_all P (snd (bindE m f h))"
    proof (cases r)
      case (Inl e)
      with mh pm show ?thesis by (simp add: bindE_def)
    next
      case (Inr x)
      obtain r' es' where fh: "f x (h @ es) = (r', es')" by (cases "f x (h @ es)")
      from f [of x] have "list_all P es'"
        using fh by (auto simp: emits_only_def dest: spec [of _ "h @ es"])
      with Inr mh pm fh show ?thesis by (simp add: bindE_def)
    qed
  qed
qed

lemma emits_only_catchE:
  "emits_only P m \<Longrightarrow> (\<And>e. emits_only P (f e)) \<Longrightarrow> emits_only P (catchE m f)"
proof -
  assume m: "emits_only P m" and f: "\<And>e. emits_only P (f e)"
  show ?thesis
    unfolding emits_only_def
  proof
    fix h
    obtain r es where mh: "m h = (r, es)" by (cases "m h")
    from m have pm: "list_all P es" using mh by (auto simp: emits_only_def dest: spec [of _ h])
    show "list_all P (snd (catchE m f h))"
    proof (cases r)
      case (Inr x)
      with mh pm show ?thesis by (simp add: catchE_def)
    next
      case (Inl e)
      obtain r' es' where fh: "f e (h @ es) = (r', es')" by (cases "f e (h @ es)")
      from f [of e] have "list_all P es'"
        using fh by (auto simp: emits_only_def dest: spec [of _ "h @ es"])
      with Inl mh pm fh show ?thesis by (simp add: catchE_def)
    qed
  qed
qed

lemma emits_only_Date_now: "emits_only P (Date_now env)"
  by (simp add: emits_only_def Date_now_def)

lemmas emits_only_intros =
  emits_only_returnE emits_only_throwE emits_only_liftE emits_only_emit emits_only_delay
  emits_only_perform emits_only_bindE emits_only_catchE

lemma key_fetchNewListings: "emits_only (key_is (openseaApiKey b)) (fetchNewListings env b slug limit)"
  unfolding fetchNewListings_def Let_def
  by (intro emits_only_intros) (simp_all add: events_request_def)

lemma key_fetchListingOrder: "emits_only (key_is (openseaApiKey b)) (fetchListingOrder env b c t)"
  unfolding fetchListingOrder_def
  by (intro emits_only_intros) (simp_all add: listings_request_def)

lemma key_getRoyaltyInfo: "emits_only (key_is (openseaApiKey b)) (getRoyaltyInfo env b c)"
  unfolding getRoyaltyInfo_def
  by (intro emits_only_intros) (simp_all add: asset_contract_request_def)

lemma key_postOffer: "emits_only (key_is (openseaApiKey b)) (postOfferToOpenSea env b so)"
  unfolding postOfferToOpenSea_def
  by (intro emits_only_intros) (simp_all add: post_offer_request_def)


lemma emits_only_if:
  "emits_only P m1 \<Longrightarrow> emits_only P m2 \<Longrightarrow> emits_only P (if c then m1 else m2)"
  by simp

lemma emits_only_case_option:
  "emits_only P m1 \<Longrightarrow> (\<And>x. emits_only P (f x)) \<Longrightarrow>
   emits_only P (case v of None \<Rightarrow> m1 | Some x \<Rightarrow> f x)"
  by (cases v) simp_all

lemma emits_only_case_list:
  "emits_only P m1 \<Longrightarrow> (\<And>x xs. emits_only P (f x xs)) \<Longrightarrow>
   emits_only P (case v of [] \<Rightarrow> m1 | x # xs \<Rightarrow> f x xs)"
  by (cases v) simp_all

lemma emits_only_case_decision:
  "(\<And>c t p. emits_only P (f c t p)) \<Longrightarrow> (\<And>c t p. emits_only P (g c t p)) \<Longrightarrow>
   emits_only P (case v of Buy c t p \<Rightarrow> f c t p | Offer c t p \<Rightarrow> g c t p)"
  by (cases v) simp_all

lemmas emits_only_struct =
  emits_only_intros emits_only_if emits_only_case_option emits_only_case_list
  emits_only_case_decision emits_only_Date_now

lemma key_wrap: "emits_only (key_is k) (wrapEthIfNeeded env b w)"
  unfolding wrapEthIfNeeded_def Let_def
  by (intro emits_only_struct) simp_all

lemma key_approve: "emits_only (key_is k) (approveWeth env b w)"
  unfolding approveWeth_def
  by (intro emits_only_struct) simp_all

lemma key_buyNow: "emits_only (key_is (openseaApiKey b)) (buyNow env b c t p)"
  unfolding buyNow_def
  by (intro emits_only_struct key_fetchListingOrder) simp_all

lemma key_makeOffer: "emits_only (key_is (openseaApiKey b)) (makeOffer env b c t p d)"
  unfolding makeOffer_def Let_def
  by (intro emits_only_struct key_wrap key_approve key_getRoyaltyInfo key_postOffer) simp_all

lemma key_dispatch_listing: "emits_only (key_is (openseaApiKey b)) (dispatch_listing env b l)"
  unfolding dispatch_listing_def
  by (intro emits_only_struct key_buyNow key_makeOffer) simp_all

lemma key_for_listings: "emits_only (key_is (openseaApiKey b)) (for_listings env b ls)"
  by (induction ls) (auto intro!: emits_only_intros key_dispatch_listing)

lemma key_monitor_cycle: "emits_only (key_is (openseaApiKey b)) (monitor_cycle env b slug)"
  unfolding monitor_cycle_def
  by (intro emits_only_struct key_fetchNewListings key_for_listings) simp_all

lemma key_monitor_turns: "emits_only (key_is (openseaApiKey b)) (monitor_turns k env b slug)"
  by (induction k) (auto intro!: emits_only_intros key_monitor_cycle)

lemma key_monitorCollection:
  "emits_only (key_is (openseaApiKey b)) (monitorCollection k env b slug)"
  unfolding monitorCollection_def
  by (intro emits_only_struct key_monitor_turns) simp_all

text \<open>
  C10. The constructor does not store its \<open>openseaApiKey\<close> argument. Two calls that
  differ in that argument only build the same instance, hence behave alike; and on every
  instance the constructor builds, \<open>this.openseaApiKey\<close> is undefined, so the requests
  for listings, for an order, for the royalty data and for posting an offer all carry an
  undefined \<open>X-API-KEY\<close> header, in every trace of monitorCollection, buyNow and
  makeOffer.
\<close>

theorem api_key_never_stored:
  "OpenSeaBot_new env privateKey infuraUrl key1 cfg =
     OpenSeaBot_new env privateKey infuraUrl key2 cfg \<and>
   (\<forall>b. OpenSeaBot_new env privateKey infuraUrl key1 cfg = Inr b \<longrightarrow>
      openseaApiKey b = None \<and>
      x_api_key (events_request b slug limit) = None \<and>
      x_api_key (listings_request b c t) = None \<and>
      x_api_key (asset_contract_request b c) = None \<and>
      x_api_key (post_offer_request b) = None \<and>
      emits_only (key_is None) (monitorCollection k env' b slug) \<and>
      emits_only (key_is None) (buyNow env' b c t p) \<and>
      emits_only (key_is None) (makeOffer env' b c t p days))"
proof (intro conjI allI impI)
  show "OpenSeaBot_new env privateKey infuraUrl key1 cfg =
          OpenSeaBot_new env privateKey infuraUrl key2 cfg"
    by (simp add: OpenSeaBot_new_def)
next
  fix b
  assume "OpenSeaBot_new env privateKey infuraUrl key1 cfg = Inr b"
  then show none: "openseaApiKey b = None"
    by (auto simp: OpenSeaBot_new_def Let_def split: sum.splits if_splits option.splits)
  then show "x_api_key (events_request b slug limit) = None"
    and "x_api_key (listings_request b c t) = None"
    and "x_api_key (asset_contract_request b c) = None"
    and "x_api_key (post_offer_request b) = None"
    by (simp_all add: events_request_def listings_request_def asset_contract_request_def
        post_offer_request_def)
  from none key_monitorCollection [of b k env' slug]
  show "emits_only (key_is None) (monitorCollection k env' b slug)" by simp
  from none key_buyNow [of b env' c t p]
  show "emits_only (key_is None) (buyNow env' b c t p)" by simp
  from none key_makeOffer [of b env' c t p days]
  show "emits_only (key_is None) (makeOffer env' b c t p days)" by simp
qed

theorem api_key_never_stored_witness:
  "OpenSeaBot_new env0 (Some ''key'') (Some ''https://rpc'') (Some ''my-api-key'') no_overrides
     = Inr bot0 \<and>
   OpenSeaBot_new env0 (Some ''key'') (Some ''https://rpc'') None no_overrides = Inr bot0 \<and>
   openseaApiKey bot0 = None \<and>
   x_api_key (events_request bot0 ''cool-cats-nft'' 10) = None \<and>
   x_api_key (listings_request bot0 ''0xC'' ''7'') = None \<and>
   x_api_key (asset_contract_request bot0 ''0xC'') = None \<and>
   x_api_key (post_offer_request bot0) = None \<and>
   emits_only (key_is None) (monitorCollection 2 env_batch bot0 ''cool-cats-nft'') \<and>
   emits_only (key_is None) (buyNow env_batch bot0 ''0xC'' ''7'' (1 / 20)) \<and>
   emits_only (key_is None) (makeOffer env_batch bot0 ''0xC'' ''7'' (1 / 20) None)"
proof -
  have n: "OpenSeaBot_new env0 (Some ''key'') (Some ''https://rpc'') (Some ''my-api-key'')
             no_overrides = Inr bot0"
    by (simp add: OpenSeaBot_new_def falsy_def env0_def bot0_def spread_config_def
        no_overrides_def DEFAULT_CONFIG_def)
  from api_key_never_stored [of env0 "Some ''key''" "Some ''https://rpc''" "Some ''my-api-key''"
      no_overrides None "''cool-cats-nft''" 10 "''0xC''" "''7''" 2 env_batch "1 / 20" None] n
  show ?thesis by simp
qed

end
